theory Spec2Isabelle
  imports Main
begin

section \<open>The Data Store as seen by the client\<close>

text \<open>
  The three context providers (\<^verbatim>\<open>BookingContext.tsx\<close>, \<^verbatim>\<open>MachineContext.tsx\<close>,
  \<^verbatim>\<open>AuthContext.tsx\<close>) talk to an external Data Store through the \<^verbatim>\<open>supabase\<close>
  client. Every awaited call either resolves to \<^verbatim>\<open>{ data, error }\<close> with \<^verbatim>\<open>error\<close>
  null (\<open>Data\<close>), resolves with \<^verbatim>\<open>error\<close> set (\<open>Failed\<close>), or rejects, which the
  surrounding \<^verbatim>\<open>try\<close> sees as an exception (\<open>Thrown\<close>). What the store answers is
  not decided by this code, so each call is a function from the request the code builds
  to the reply it gets.
\<close>

datatype store_error = StoreError string

datatype 'a reply = Data 'a | Failed store_error | Thrown store_error

fun failed :: "'a reply \<Rightarrow> bool" where
  "failed (Data d) = False"
| "failed (Failed e) = True"
| "failed (Thrown e) = True"

section \<open>Records\<close>

text \<open>
  Modelled from the spec: the declarations of \<^verbatim>\<open>Booking\<close>, \<^verbatim>\<open>Machine\<close>,
  \<^verbatim>\<open>MachineType\<close>, \<^verbatim>\<open>AuditLog\<close> and \<^verbatim>\<open>User\<close> (\<^verbatim>\<open>src/types\<close>) are not among the
  sources. The fields below are the ones the providers read (\<^verbatim>\<open>id\<close>, \<^verbatim>\<open>user_id\<close>,
  \<^verbatim>\<open>machine_id\<close>, \<^verbatim>\<open>machine_type_id\<close>, \<^verbatim>\<open>created_at\<close>, \<^verbatim>\<open>name\<close>, \<^verbatim>\<open>email\<close>,
  \<^verbatim>\<open>role\<close>, \<^verbatim>\<open>tokens_given\<close>, \<^verbatim>\<open>tokens_consumed\<close>, \<^verbatim>\<open>tokens_remaining\<close>,
  \<^verbatim>\<open>timestamp\<close>) together with the ones section 3 of the specification gives a
  Booking (mode, half-open interval, status, token cost). The field \<^verbatim>\<open>id\<close> is written
  \<open>b_id\<close>, \<open>m_id\<close>, \<open>t_id\<close>, \<open>a_id\<close>, \<open>u_id\<close>, since \<open>id\<close> is the identity function of
  HOL. Token amounts and times are integers (the specification has no fractional
  tokens).
\<close>

datatype booking_status = Pending | Approved | Rejected | Cancelled | Completed

datatype booking_mode = WeeklyPlanning | SameWeekExceptional | MonthlyProvisional

record booking =
  b_id :: string
  user_id :: string
  machine_id :: string
  mode :: booking_mode
  start_time :: int
  end_time :: int
  status :: booking_status
  cost :: int
  created_at :: int

text \<open>\<^verbatim>\<open>Omit<Booking, 'id' | 'created_at'>\<close>\<close>

record booking_data =
  d_user_id :: string
  d_machine_id :: string
  d_mode :: booking_mode
  d_start_time :: int
  d_end_time :: int
  d_status :: booking_status
  d_cost :: int

text \<open>\<^verbatim>\<open>Partial<Booking>\<close>: a field that is absent is \<open>None\<close>.\<close>

record booking_updates =
  set_b_id :: "string option"
  set_user_id :: "string option"
  set_machine_id :: "string option"
  set_mode :: "booking_mode option"
  set_start_time :: "int option"
  set_end_time :: "int option"
  set_status :: "booking_status option"
  set_cost :: "int option"
  set_created_at :: "int option"

record machine =
  m_id :: string
  machine_type_id :: string
  m_name :: string

record machine_type =
  t_id :: string
  t_name :: string

record audit_log =
  a_id :: string
  a_action :: string
  a_timestamp :: int

datatype user_role = Requester | FacilityAdmin | InstitutionAdmin

record user =
  u_id :: string
  u_name :: string
  email :: string
  role :: user_role
  tokens_given :: int
  tokens_consumed :: int
  tokens_remaining :: int

text \<open>\<^verbatim>\<open>Partial<User>\<close>\<close>

record user_updates =
  set_u_id :: "string option"
  set_u_name :: "string option"
  set_email :: "string option"
  set_role :: "user_role option"
  set_tokens_given :: "int option"
  set_tokens_consumed :: "int option"
  set_tokens_remaining :: "int option"

text \<open>\<^verbatim>\<open>Omit<User, 'id' | 'created_at'>\<close>, the argument of \<^verbatim>\<open>addUser\<close>.\<close>

record user_data =
  new_name :: string
  new_email :: string
  new_role :: user_role
  new_tokens_given :: int
  new_tokens_consumed :: int
  new_tokens_remaining :: int

text \<open>The object \<^verbatim>\<open>addUser\<close> inserts into \<^verbatim>\<open>profiles\<close>.\<close>

record profile_row =
  row_id :: string
  row_name :: string
  row_role :: user_role
  row_tokens_given :: int
  row_tokens_consumed :: int
  row_tokens_remaining :: int

text \<open>
  The requests on the \<^verbatim>\<open>bookings\<close> collection that read rows, all ordered by
  \<^verbatim>\<open>created_at\<close> descending: every row, the rows with \<^verbatim>\<open>.eq('user_id', userId)\<close>, the
  rows with \<^verbatim>\<open>.eq('machine_id', machineId)\<close>.
\<close>

datatype booking_query = AllBookings | EqUserId string | EqMachineId string

text \<open>The event a \<^verbatim>\<open>postgres_changes\<close> subscription hands to its callback.\<close>

record 'row change_payload =
  eventType :: string
  new_row :: "'row option"
  old_row :: "'row option"

record store =
  select_bookings :: "booking_query \<Rightarrow> booking list reply"
  insert_booking :: "booking_data \<Rightarrow> booking reply"
  update_booking :: "string \<Rightarrow> booking_updates \<Rightarrow> unit reply"
  select_machine_types :: "machine_type list reply"
  select_machines :: "machine list reply"
  select_audit_logs :: "audit_log list reply"
  delete_machine_type :: "string \<Rightarrow> unit reply"
  update_profile :: "string \<Rightarrow> user_updates \<Rightarrow> unit reply"
  create_auth_user :: "string \<Rightarrow> string \<Rightarrow> user_role \<Rightarrow> string reply"
  insert_profile :: "profile_row \<Rightarrow> user reply"

text \<open>
  The client-local state: \<^verbatim>\<open>user\<close> of the AuthProvider, \<^verbatim>\<open>bookings\<close> and
  \<^verbatim>\<open>isLoading\<close> of the BookingProvider, \<^verbatim>\<open>machines\<close>, \<^verbatim>\<open>machineTypes\<close>,
  \<^verbatim>\<open>auditLogs\<close> and \<^verbatim>\<open>isLoading\<close> of the MachineProvider (here
  \<open>isLoading_machines\<close>). A \<^verbatim>\<open>setX\<close> call is an update of the field.
\<close>

record client =
  user :: "user option"
  bookings :: "booking list"
  isLoading :: bool
  machines :: "machine list"
  machineTypes :: "machine_type list"
  auditLogs :: "audit_log list"
  isLoading_machines :: bool

section \<open>BookingContext\<close>

text \<open>
  \<^verbatim>\<open>loadBookings\<close>: the flag is raised, the rows are read; a reply with \<^verbatim>\<open>error\<close>
  returns early, a rejection is caught, and \<^verbatim>\<open>finally\<close> lowers the flag on every
  path. Only the path without error calls \<^verbatim>\<open>setBookings\<close>.
\<close>

definition loadBookings :: "store \<Rightarrow> client \<Rightarrow> client" where
  "loadBookings st c =
     (let c1 = c\<lparr>isLoading := True\<rparr> in
      case select_bookings st AllBookings of
        Failed e \<Rightarrow> c1\<lparr>isLoading := False\<rparr>
      | Data rows \<Rightarrow> (c1\<lparr>bookings := rows\<rparr>)\<lparr>isLoading := False\<rparr>
      | Thrown e \<Rightarrow> c1\<lparr>isLoading := False\<rparr>)"

definition refreshBookings :: "store \<Rightarrow> client \<Rightarrow> client" where
  "refreshBookings st c = loadBookings st c"

text \<open>
  \<^verbatim>\<open>getBookingsByUser\<close>, \<^verbatim>\<open>getBookingsByMachine\<close>: an \<^verbatim>\<open>error\<close> is thrown inside
  the \<^verbatim>\<open>try\<close>, and the \<^verbatim>\<open>catch\<close> returns \<^verbatim>\<open>[]\<close>.
\<close>

definition getBookingsByUser :: "store \<Rightarrow> string \<Rightarrow> booking list" where
  "getBookingsByUser st userId =
     (case select_bookings st (EqUserId userId) of
        Failed e \<Rightarrow> []
      | Data rows \<Rightarrow> rows
      | Thrown e \<Rightarrow> [])"

definition getBookingsByMachine :: "store \<Rightarrow> string \<Rightarrow> booking list" where
  "getBookingsByMachine st machineId =
     (case select_bookings st (EqMachineId machineId) of
        Failed e \<Rightarrow> []
      | Data rows \<Rightarrow> rows
      | Thrown e \<Rightarrow> [])"

text \<open>
  \<^verbatim>\<open>addBooking\<close>: the request goes to the store as it is. An \<^verbatim>\<open>error\<close> in the reply
  is thrown, caught, logged and thrown again, and so is a rejection; otherwise the row
  the store returns is put in front of the local list and returned. The result is the
  outcome of the promise together with the client state afterwards.
\<close>

definition addBooking :: "store \<Rightarrow> booking_data \<Rightarrow> client \<Rightarrow> (store_error + booking) \<times> client" where
  "addBooking st bookingData c =
     (case insert_booking st bookingData of
        Failed e \<Rightarrow> (Inl e, c)
      | Data newBooking \<Rightarrow> (Inr newBooking, c\<lparr>bookings := newBooking # bookings c\<rparr>)
      | Thrown e \<Rightarrow> (Inl e, c))"

text \<open>The spread \<^verbatim>\<open>{ ...booking, ...updates }\<close>: a field of \<^verbatim>\<open>updates\<close> wins.\<close>

definition spread :: "'a \<Rightarrow> 'a option \<Rightarrow> 'a" where
  "spread old new = (case new of None \<Rightarrow> old | Some v \<Rightarrow> v)"

definition spread_booking :: "booking \<Rightarrow> booking_updates \<Rightarrow> booking" where
  "spread_booking b updates =
     \<lparr>b_id = spread (b_id b) (set_b_id updates),
      user_id = spread (user_id b) (set_user_id updates),
      machine_id = spread (machine_id b) (set_machine_id updates),
      mode = spread (mode b) (set_mode updates),
      start_time = spread (start_time b) (set_start_time updates),
      end_time = spread (end_time b) (set_end_time updates),
      status = spread (status b) (set_status updates),
      cost = spread (cost b) (set_cost updates),
      created_at = spread (created_at b) (set_created_at updates)\<rparr>"

text \<open>
  \<^verbatim>\<open>updateBooking\<close>: the update goes to the store for the rows with this id; without
  error the same fields are written over every local booking with this id.
\<close>

definition updateBooking :: "store \<Rightarrow> string \<Rightarrow> booking_updates \<Rightarrow> client \<Rightarrow> (store_error + unit) \<times> client" where
  "updateBooking st ident updates c =
     (case update_booking st ident updates of
        Failed e \<Rightarrow> (Inl e, c)
      | Data u \<Rightarrow>
          (Inr (),
           c\<lparr>bookings := map (\<lambda>b. if b_id b = ident then spread_booking b updates else b) (bookings c)\<rparr>)
      | Thrown e \<Rightarrow> (Inl e, c))"

text \<open>
  The callback of the \<^verbatim>\<open>bookings_changes\<close> subscription: it logs the payload to the
  console (not part of the client state) and calls \<^verbatim>\<open>loadBookings\<close>.
\<close>

definition bookings_changes :: "store \<Rightarrow> booking change_payload \<Rightarrow> client \<Rightarrow> client" where
  "bookings_changes st payload c = loadBookings st c"

section \<open>MachineContext\<close>

text \<open>
  \<^verbatim>\<open>loadData\<close> reads the three collections one after the other. A reply with an error
  is logged and the next read follows; a rejection leaves the \<^verbatim>\<open>try\<close> at once. The
  flag is lowered by \<^verbatim>\<open>finally\<close>. The two auxiliary functions are the rest of the body
  after the first and the second read.
\<close>

definition loadData_audit :: "store \<Rightarrow> client \<Rightarrow> client" where
  "loadData_audit st c =
     (case select_audit_logs st of
        Failed e \<Rightarrow> c\<lparr>isLoading_machines := False\<rparr>
      | Data auditData \<Rightarrow> (c\<lparr>auditLogs := auditData\<rparr>)\<lparr>isLoading_machines := False\<rparr>
      | Thrown e \<Rightarrow> c\<lparr>isLoading_machines := False\<rparr>)"

definition loadData_machines :: "store \<Rightarrow> client \<Rightarrow> client" where
  "loadData_machines st c =
     (case select_machines st of
        Failed e \<Rightarrow> loadData_audit st c
      | Data machinesData \<Rightarrow> loadData_audit st (c\<lparr>machines := machinesData\<rparr>)
      | Thrown e \<Rightarrow> c\<lparr>isLoading_machines := False\<rparr>)"

definition loadData :: "store \<Rightarrow> client \<Rightarrow> client" where
  "loadData st c =
     (let c1 = c\<lparr>isLoading_machines := True\<rparr> in
      case select_machine_types st of
        Failed e \<Rightarrow> loadData_machines st c1
      | Data typesData \<Rightarrow> loadData_machines st (c1\<lparr>machineTypes := typesData\<rparr>)
      | Thrown e \<Rightarrow> c1\<lparr>isLoading_machines := False\<rparr>)"

text \<open>
  The callbacks of the subscriptions \<^verbatim>\<open>machines_changes\<close>,
  \<^verbatim>\<open>machine_types_changes\<close> and \<^verbatim>\<open>audit_logs_changes\<close> take no parameter: the
  payload the feed passes is dropped.
\<close>

definition machines_changes :: "store \<Rightarrow> machine change_payload \<Rightarrow> client \<Rightarrow> client" where
  "machines_changes st payload c = loadData st c"

definition machine_types_changes :: "store \<Rightarrow> machine_type change_payload \<Rightarrow> client \<Rightarrow> client" where
  "machine_types_changes st payload c = loadData st c"

definition audit_logs_changes :: "store \<Rightarrow> audit_log change_payload \<Rightarrow> client \<Rightarrow> client" where
  "audit_logs_changes st payload c = loadData st c"

subsection \<open>Identifier allocation\<close>

text \<open>
  The builtins the allocator uses. A string is a list of code units, and the model has
  the code units below 256. \<^verbatim>\<open>parseInt\<close> without radix: leading white space is
  skipped (of the code units below 256 these are tab, line feed, vertical tab, form
  feed, carriage return, space and the no-break space \<open>0xA0\<close>), one sign is read, a
  prefix \<^verbatim>\<open>0x\<close> or \<^verbatim>\<open>0X\<close> selects radix 16, then the longest run of digits of the
  radix is read; no digit gives \<^verbatim>\<open>NaN\<close>, here \<open>None\<close>. Numbers are integers here:
  that is the builtin's result for numbers below \<open>2^53\<close>, and \<open>String_of\<close> is
  \<^verbatim>\<open>String\<close> for such numbers; the theorems on \<open>generateMachineId\<close> bound the
  numbers read by 100.
\<close>

definition is_white_space :: "char \<Rightarrow> bool" where
  "is_white_space ch =
     (ch \<in> set [CHR 0x09, CHR 0x0A, CHR 0x0B, CHR 0x0C, CHR 0x0D, CHR '' '', CHR 0xA0])"

definition digit_table :: "(char \<times> nat) list" where
  "digit_table =
     [(CHR ''0'', 0), (CHR ''1'', 1), (CHR ''2'', 2), (CHR ''3'', 3), (CHR ''4'', 4),
      (CHR ''5'', 5), (CHR ''6'', 6), (CHR ''7'', 7), (CHR ''8'', 8), (CHR ''9'', 9),
      (CHR ''a'', 10), (CHR ''b'', 11), (CHR ''c'', 12), (CHR ''d'', 13), (CHR ''e'', 14),
      (CHR ''f'', 15), (CHR ''A'', 10), (CHR ''B'', 11), (CHR ''C'', 12), (CHR ''D'', 13),
      (CHR ''E'', 14), (CHR ''F'', 15)]"

definition digit_value :: "char \<Rightarrow> nat option" where
  "digit_value ch = map_of digit_table ch"

definition radix_digit :: "nat \<Rightarrow> char \<Rightarrow> bool" where
  "radix_digit R ch = (case digit_value ch of None \<Rightarrow> False | Some v \<Rightarrow> v < R)"

definition digits_value :: "nat \<Rightarrow> string \<Rightarrow> nat" where
  "digits_value R z = foldl (\<lambda>acc ch. acc * R + (case digit_value ch of None \<Rightarrow> 0 | Some v \<Rightarrow> v)) 0 z"

definition parseInt :: "string \<Rightarrow> int option" where
  "parseInt inputString =
     (let s1 = dropWhile is_white_space inputString;
          negative = (take 1 s1 = ''-'');
          s2 = (if take 1 s1 = ''+'' \<or> take 1 s1 = ''-'' then drop 1 s1 else s1);
          hex = (take 2 s2 = ''0x'' \<or> take 2 s2 = ''0X'');
          R = (if hex then 16 else 10);
          s3 = (if hex then drop 2 s2 else s2);
          z = takeWhile (radix_digit R) s3
      in if z = [] then None
         else Some ((if negative then - 1 else 1) * int (digits_value R z)))"

text \<open>\<^verbatim>\<open>String(n)\<close> of an integer, and \<^verbatim>\<open>padStart\<close>.\<close>

definition digit_char :: "nat \<Rightarrow> char" where
  "digit_char d = ''0123456789'' ! d"

fun decimal :: "nat \<Rightarrow> string" where
  "decimal n = (if n < 10 then [digit_char n] else decimal (n div 10) @ [digit_char (n mod 10)])"

declare decimal.simps [simp del]

definition String_of :: "int \<Rightarrow> string" where
  "String_of n = (if n < 0 then CHR ''-'' # decimal (nat (- n)) else decimal (nat n))"

definition padStart :: "nat \<Rightarrow> char \<Rightarrow> string \<Rightarrow> string" where
  "padStart targetLength ch s = replicate (targetLength - length s) ch @ s"

text \<open>
  \<^verbatim>\<open>generateMachineId\<close>: the machines of the type are filtered by their
  \<^verbatim>\<open>machine_type_id\<close>; the \<^verbatim>\<open>reduce\<close> starts at 0 and keeps the larger number, and
  \<^verbatim>\<open>NaN > max\<close> is false, so an id without a number leaves \<^verbatim>\<open>max\<close> as it is.
  The number is read from \<^verbatim>\<open>machine.id.substring(4)\<close>.
\<close>

definition generateMachineId :: "client \<Rightarrow> string \<Rightarrow> string" where
  "generateMachineId c machineTypeId =
     (let machinesInType = filter (\<lambda>m. machine_type_id m = machineTypeId) (machines c);
          maxMachineNum =
            foldl (\<lambda>mx m. case parseInt (drop 4 (m_id m)) of
                             None \<Rightarrow> mx
                           | Some machineNum \<Rightarrow> if machineNum > mx then machineNum else mx)
                  0 machinesInType
      in machineTypeId @ ''M'' @ padStart 2 (CHR ''0'') (String_of (maxMachineNum + 1)))"

text \<open>\<^verbatim>\<open>generateMachineTypeId\<close>: \<^verbatim>\<open>replace('C', '')\<close> removes the first \<^verbatim>\<open>C\<close>.\<close>

definition generateMachineTypeId :: "client \<Rightarrow> string" where
  "generateMachineTypeId c =
     (let maxId =
            foldl (\<lambda>mx t. case parseInt (remove1 (CHR ''C'') (t_id t)) of
                             None \<Rightarrow> mx
                           | Some idNum \<Rightarrow> if idNum > mx then idNum else mx)
                  0 (machineTypes c)
      in ''C'' @ padStart 2 (CHR ''0'') (String_of (maxId + 1)))"

text \<open>
  \<^verbatim>\<open>deleteMachineType\<close>: the delete goes to the store; without error the type is
  filtered out of the local list.
\<close>

definition deleteMachineType :: "store \<Rightarrow> string \<Rightarrow> client \<Rightarrow> (store_error + unit) \<times> client" where
  "deleteMachineType st ident c =
     (case delete_machine_type st ident of
        Failed e \<Rightarrow> (Inl e, c)
      | Data u \<Rightarrow> (Inr (), c\<lparr>machineTypes := filter (\<lambda>t. t_id t \<noteq> ident) (machineTypes c)\<rparr>)
      | Thrown e \<Rightarrow> (Inl e, c))"

section \<open>AuthContext\<close>

definition spread_user :: "user \<Rightarrow> user_updates \<Rightarrow> user" where
  "spread_user u updates =
     \<lparr>u_id = spread (u_id u) (set_u_id updates),
      u_name = spread (u_name u) (set_u_name updates),
      email = spread (email u) (set_email updates),
      role = spread (role u) (set_role updates),
      tokens_given = spread (tokens_given u) (set_tokens_given updates),
      tokens_consumed = spread (tokens_consumed u) (set_tokens_consumed updates),
      tokens_remaining = spread (tokens_remaining u) (set_tokens_remaining updates)\<rparr>"

text \<open>
  \<^verbatim>\<open>updateUser\<close>: the update goes to the \<^verbatim>\<open>profiles\<close> collection; without error, and
  when the signed-in user is the one updated, the fields are written over that user and
  the result is set as the local \<^verbatim>\<open>user\<close>. The \<^verbatim>\<open>user\<close> the body reads, in the test
  and in the spread, is the one of the render in which this function value was created:
  \<^verbatim>\<open>setUser({ ...user, ...updates })\<close> does not take the current state. It is the
  argument \<open>rendered\<close>; for a function value of the latest render it is \<open>user c\<close>.
\<close>

definition updateUser :: "store \<Rightarrow> user option \<Rightarrow> string \<Rightarrow> user_updates \<Rightarrow> client \<Rightarrow> (store_error + unit) \<times> client" where
  "updateUser st rendered ident updates c =
     (case update_profile st ident updates of
        Failed e \<Rightarrow> (Inl e, c)
      | Data u \<Rightarrow>
          (Inr (),
           case rendered of
             None \<Rightarrow> c
           | Some usr \<Rightarrow> if u_id usr = ident then c\<lparr>user := Some (spread_user usr updates)\<rparr> else c)
      | Thrown e \<Rightarrow> (Inl e, c))"

text \<open>
  \<^verbatim>\<open>addUser\<close>: the authentication user is created from the e-mail address, the
  temporary password and the name and role; then the profile is inserted with the id the
  authentication service gave and the three token fields of the argument as they are.
  The row the store returns is the result; no local state is set.
\<close>

definition addUser :: "store \<Rightarrow> user_data \<Rightarrow> client \<Rightarrow> (store_error + user) \<times> client" where
  "addUser st userData c =
     (case create_auth_user st (new_email userData) (new_name userData) (new_role userData) of
        Failed authError \<Rightarrow> (Inl authError, c)
      | Data authId \<Rightarrow>
          (case insert_profile st
                  \<lparr>row_id = authId, row_name = new_name userData, row_role = new_role userData,
                   row_tokens_given = new_tokens_given userData,
                   row_tokens_consumed = new_tokens_consumed userData,
                   row_tokens_remaining = new_tokens_remaining userData\<rparr> of
             Failed profileError \<Rightarrow> (Inl profileError, c)
           | Data profileData \<Rightarrow> (Inr profileData, c)
           | Thrown e \<Rightarrow> (Inl e, c))
      | Thrown e \<Rightarrow> (Inl e, c))"

section \<open>Sequences of calls\<close>

text \<open>
  A session of a client is a sequence of calls of the operations that touch bookings and
  users: creating a booking is \<open>addBooking\<close>; approving, rejecting, cancelling and
  completing one are \<open>updateBooking\<close> with the new status; granting tokens is
  \<open>updateUser\<close>. Each call comes with the store as it answers at that moment, and the
  next call starts from the client state the call leaves, whether its promise was
  fulfilled or rejected. \<open>addBooking\<close> and \<open>updateBooking\<close> set the state with a
  function of the previous state, so they see the state the last call left. A call of
  \<open>updateUser\<close> carries the user its function value captured, which is the user of
  some earlier render and need not be the user the last call left.
\<close>

datatype operation =
  AddBooking booking_data
| UpdateBooking string booking_updates
| UpdateUser "user option" string user_updates
| AddUser user_data

fun perform :: "store \<Rightarrow> operation \<Rightarrow> client \<Rightarrow> client" where
  "perform st (AddBooking bookingData) c = snd (addBooking st bookingData c)"
| "perform st (UpdateBooking ident updates) c = snd (updateBooking st ident updates c)"
| "perform st (UpdateUser rendered ident updates) c = snd (updateUser st rendered ident updates c)"
| "perform st (AddUser userData) c = snd (addUser st userData c)"

fun run :: "(store \<times> operation) list \<Rightarrow> client \<Rightarrow> client" where
  "run [] c = c"
| "run (call # calls) c = run calls (perform (fst call) (snd call) c)"

section \<open>The Ledger inside the Data Store\<close>







section \<open>The specification's words\<close>

text \<open>
  The definitions of this section follow the specification, not the source; the
  theorems compare the operations above with them.

  Section 3: two half-open intervals conflict when they overlap with positive length
  (the end of one equal to the start of the other is allowed); only bookings in status
  pending or approved count.
\<close>

definition spec_overlaps :: "int \<Rightarrow> int \<Rightarrow> int \<Rightarrow> int \<Rightarrow> bool" where
  "spec_overlaps s1 e1 s2 e2 = (s1 < e2 \<and> s2 < e1)"

definition spec_conflicts :: "booking_data \<Rightarrow> booking \<Rightarrow> bool" where
  "spec_conflicts proposed existing =
     (machine_id existing = d_machine_id proposed \<and>
      (status existing = Pending \<or> status existing = Approved) \<and>
      spec_overlaps (d_start_time proposed) (d_end_time proposed)
        (start_time existing) (end_time existing))"

text \<open>Section 4.4: the state machine of a booking, and its terminal statuses.\<close>

fun spec_transition :: "booking_status \<Rightarrow> booking_status \<Rightarrow> bool" where
  "spec_transition Pending Approved = True"
| "spec_transition Pending Rejected = True"
| "spec_transition Pending Cancelled = True"
| "spec_transition Approved Cancelled = True"
| "spec_transition Approved Completed = True"
| "spec_transition s t = False"

definition spec_terminal :: "booking_status \<Rightarrow> bool" where
  "spec_terminal s = (s = Rejected \<or> s = Cancelled \<or> s = Completed)"

text \<open>Section 3: \<open>remaining = given - consumed\<close>, for a user and for the signed-in user.\<close>

definition ledger_balanced :: "user \<Rightarrow> bool" where
  "ledger_balanced u = (tokens_remaining u = tokens_given u - tokens_consumed u)"

definition ledger_holds :: "client \<Rightarrow> bool" where
  "ledger_holds c = (case user c of None \<Rightarrow> True | Some u \<Rightarrow> ledger_balanced u)"

text \<open>
  Section 4.1: the trailing numeric suffix of an identifier that has the category's
  prefix (an identifier of another shape is malformed and has none); the next
  identifier is the maximum suffix plus one in two digits, and beyond 99 the
  allocation is the error \<open>IdentifierSpaceExhausted\<close>.
\<close>

definition is_decimal_digit :: "char \<Rightarrow> bool" where
  "is_decimal_digit ch = (ch \<in> set ''0123456789'')"

definition spec_numeric_suffix :: "string \<Rightarrow> string \<Rightarrow> int option" where
  "spec_numeric_suffix categoryId ident =
     (let prefix = categoryId @ ''M''; suffix = drop (length prefix) ident
      in if take (length prefix) ident = prefix \<and> suffix \<noteq> [] \<and> list_all is_decimal_digit suffix
         then Some (int (digits_value 10 suffix)) else None)"

datatype alloc_error = IdentifierSpaceExhausted

definition spec_two_digits :: "int \<Rightarrow> string" where
  "spec_two_digits n = [digit_char (nat n div 10), digit_char (nat n mod 10)]"

definition spec_nextMachineId :: "string \<Rightarrow> machine list \<Rightarrow> alloc_error + string" where
  "spec_nextMachineId categoryId existingMachines =
     (let suffixes = List.map_filter (\<lambda>m. spec_numeric_suffix categoryId (m_id m))
                       (filter (\<lambda>m. machine_type_id m = categoryId) existingMachines);
          next = Max (set (0 # suffixes)) + 1
      in if next > 99 then Inl IdentifierSpaceExhausted
         else Inr (categoryId @ ''M'' @ spec_two_digits next))"

section \<open>Conditions on the inputs\<close>

text \<open>
  An identifier is numbered below \<open>k\<close> when it is the category's identifier, \<open>M\<close> and
  a decimal number below \<open>k\<close>; it is non-numeric when \<^verbatim>\<open>parseInt\<close> finds no number
  after its fourth character.
\<close>

definition numbered_below :: "int \<Rightarrow> string \<Rightarrow> string \<Rightarrow> bool" where
  "numbered_below k categoryId ident =
     (case spec_numeric_suffix categoryId ident of None \<Rightarrow> False | Some n \<Rightarrow> n < k)"

definition non_numeric :: "string \<Rightarrow> bool" where
  "non_numeric ident = (parseInt (drop 4 ident) = None)"

text \<open>
  A call respects the ledger when it is not an update of a user, or when the user its
  function value captured, with the fields of the update written over it, has
  \<open>remaining = given - consumed\<close> (nothing is asked when no user was captured or
  the captured user is not the one updated: the client's user is left alone then).
\<close>

fun respects_ledger :: "operation \<Rightarrow> bool" where
  "respects_ledger (UpdateUser rendered ident updates) =
     (case rendered of
        None \<Rightarrow> True
      | Some usr \<Rightarrow> u_id usr = ident \<longrightarrow> ledger_balanced (spread_user usr updates))"
| "respects_ledger other = True"

section \<open>Concrete stores and rows\<close>

text \<open>A store that accepts every write; an inserted booking gets an id and a time.\<close>

definition stored_row :: "booking_data \<Rightarrow> booking" where
  "stored_row d =
     \<lparr>b_id = ''b2'', user_id = d_user_id d, machine_id = d_machine_id d, mode = d_mode d,
      start_time = d_start_time d, end_time = d_end_time d, status = d_status d,
      cost = d_cost d, created_at = 2\<rparr>"

definition stored_profile :: "profile_row \<Rightarrow> user" where
  "stored_profile p =
     \<lparr>u_id = row_id p, u_name = row_name p, email = [], role = row_role p,
      tokens_given = row_tokens_given p, tokens_consumed = row_tokens_consumed p,
      tokens_remaining = row_tokens_remaining p\<rparr>"

definition store_open :: store where
  "store_open =
     \<lparr>select_bookings = (\<lambda>q. Data []),
      insert_booking = (\<lambda>d. Data (stored_row d)),
      update_booking = (\<lambda>i u. Data ()),
      select_machine_types = Data [],
      select_machines = Data [],
      select_audit_logs = Data [],
      delete_machine_type = (\<lambda>i. Data ()),
      update_profile = (\<lambda>i u. Data ()),
      create_auth_user = (\<lambda>e n r. Data ''u9''),
      insert_profile = (\<lambda>p. Data (stored_profile p))\<rparr>"

definition no_booking_updates :: booking_updates where
  "no_booking_updates =
     \<lparr>set_b_id = None, set_user_id = None, set_machine_id = None, set_mode = None,
      set_start_time = None, set_end_time = None, set_status = None, set_cost = None,
      set_created_at = None\<rparr>"

definition no_user_updates :: user_updates where
  "no_user_updates =
     \<lparr>set_u_id = None, set_u_name = None, set_email = None, set_role = None,
      set_tokens_given = None, set_tokens_consumed = None, set_tokens_remaining = None\<rparr>"

definition empty_client :: client where
  "empty_client =
     \<lparr>user = None, bookings = [], isLoading = False, machines = [],
      machineTypes = [], auditLogs = [], isLoading_machines = False\<rparr>"

text \<open>A request for \<open>C01M01\<close> over 10:00 to 12:00 (minutes of the day), costing 4 tokens.\<close>

definition request_10_12 :: booking_data where
  "request_10_12 =
     \<lparr>d_user_id = ''u1'', d_machine_id = ''C01M01'', d_mode = WeeklyPlanning,
      d_start_time = 600, d_end_time = 720, d_status = Pending, d_cost = 4\<rparr>"

definition user_with_tokens :: "int \<Rightarrow> int \<Rightarrow> int \<Rightarrow> user" where
  "user_with_tokens g k r =
     \<lparr>u_id = ''u1'', u_name = ''Ada'', email = ''ada@example.org'', role = Requester,
      tokens_given = g, tokens_consumed = k, tokens_remaining = r\<rparr>"

definition client_with_user :: "user \<Rightarrow> client" where
  "client_with_user u = empty_client\<lparr>user := Some u\<rparr>"

definition client_with_machines :: "machine list \<Rightarrow> client" where
  "client_with_machines ms = empty_client\<lparr>machines := ms\<rparr>"

definition machine_numbered :: "string \<Rightarrow> int \<Rightarrow> machine" where
  "machine_numbered cat n =
     \<lparr>m_id = cat @ ''M'' @ padStart 2 (CHR ''0'') (String_of n), machine_type_id = cat,
      m_name = ''printer''\<rparr>"

definition machine_named :: "string \<Rightarrow> string \<Rightarrow> machine" where
  "machine_named ident cat = \<lparr>m_id = ident, machine_type_id = cat, m_name = ''printer''\<rparr>"

definition full_category :: client where
  "full_category = client_with_machines (map (machine_numbered ''C01'') [1..99])"

text \<open>
  A store that refuses everything: some calls resolve with an error, others reject.
\<close>

definition store_down :: store where
  "store_down =
     \<lparr>select_bookings =
        (\<lambda>q. case q of
               AllBookings \<Rightarrow> Failed (StoreError ''unreachable'')
             | EqUserId userId \<Rightarrow> Failed (StoreError ''unreachable'')
             | EqMachineId machineId \<Rightarrow> Thrown (StoreError ''timeout'')),
      insert_booking = (\<lambda>d. Failed (StoreError ''unreachable'')),
      update_booking = (\<lambda>i u. Failed (StoreError ''unreachable'')),
      select_machine_types = Failed (StoreError ''unreachable''),
      select_machines = Failed (StoreError ''unreachable''),
      select_audit_logs = Failed (StoreError ''unreachable''),
      delete_machine_type = (\<lambda>i. Thrown (StoreError ''unreachable'')),
      update_profile = (\<lambda>i u. Thrown (StoreError ''unreachable'')),
      create_auth_user = (\<lambda>e n r. Failed (StoreError ''unreachable'')),
      insert_profile = (\<lambda>p. Failed (StoreError ''unreachable''))\<rparr>"

definition booking1 :: booking where
  "booking1 =
     \<lparr>b_id = ''b1'', user_id = ''u1'', machine_id = ''C01M01'', mode = WeeklyPlanning,
      start_time = 540, end_time = 660, status = Pending, cost = 4, created_at = 1\<rparr>"

definition client0 :: client where
  "client0 = empty_client\<lparr>bookings := [booking1]\<rparr>"

definition booking_rejected :: booking where
  "booking_rejected = booking1\<lparr>status := Rejected\<rparr>"

definition approve :: booking_updates where
  "approve = no_booking_updates\<lparr>set_status := Some Approved\<rparr>"

definition grant_to_20 :: user_updates where
  "grant_to_20 = no_user_updates\<lparr>set_tokens_given := Some 20\<rparr>"

text \<open>A grant of ten tokens to a user with \<open>given = 10\<close>, \<open>remaining = 10\<close>.\<close>

definition grant_of_10 :: user_updates where
  "grant_of_10 =
     no_user_updates\<lparr>set_tokens_given := Some 20, set_tokens_remaining := Some 20\<rparr>"

definition new_user_data :: user_data where
  "new_user_data =
     \<lparr>new_name = ''Bob'', new_email = ''bob@example.org'', new_role = Requester,
      new_tokens_given = 5, new_tokens_consumed = 0, new_tokens_remaining = 5\<rparr>"

definition category_in_use :: client where
  "category_in_use =
     empty_client\<lparr>machines := [machine_numbered ''C01'' 1],
       machineTypes := [\<lparr>t_id = ''C01'', t_name = ''3D printer''\<rparr>]\<rparr>"

definition two_categories :: client where
  "two_categories =
     empty_client\<lparr>machines := [machine_numbered ''C01'' 1],
       machineTypes := [\<lparr>t_id = ''C01'', t_name = ''3D printer''\<rparr>,
                        \<lparr>t_id = ''C02'', t_name = ''laser cutter''\<rparr>]\<rparr>"

definition insert_event :: "booking change_payload" where
  "insert_event = \<lparr>eventType = ''INSERT'', new_row = Some booking_rejected, old_row = None\<rparr>"

definition session :: "(store \<times> operation) list" where
  "session =
     [(store_open, AddBooking request_10_12),
      (store_open, UpdateBooking ''b2'' approve),
      (store_down, UpdateUser (Some (user_with_tokens 10 0 10)) ''u1'' grant_of_10),
      (store_open, UpdateUser (Some (user_with_tokens 10 0 10)) ''u1'' grant_of_10),
      (store_open, AddUser new_user_data)]"

definition bare_event :: "'row change_payload" where
  "bare_event = \<lparr>eventType = ''UPDATE'', new_row = None, old_row = None\<rparr>"

text \<open>A store whose reads return rows.\<close>

definition store_full :: store where
  "store_full =
     store_open\<lparr>select_bookings := (\<lambda>q. Data [booking_rejected]),
       select_machine_types := Data [\<lparr>t_id = ''C01'', t_name = ''3D printer''\<rparr>],
       select_machines := Data [machine_named ''C01M01'' ''C01''],
       select_audit_logs := Data [\<lparr>a_id = ''a1'', a_action = ''create'', a_timestamp = 3\<rparr>]\<rparr>"


definition three_machines :: client where
  "three_machines =
     client_with_machines
       [machine_named ''C01M01'' ''C01'', machine_named ''C01spare'' ''C01'',
        machine_named ''C02M07'' ''C02'']"

definition last_machine :: client where
  "last_machine =
     client_with_machines [machine_named ''C01M99'' ''C01'', machine_named ''C01M07'' ''C01'']"

section \<open>Failed reads\<close>

text \<open>
  C9. When the query for a user's bookings (respectively a machine's bookings) comes back
  with an error or rejects, \<open>getBookingsByUser\<close> (respectively \<open>getBookingsByMachine\<close>)
  returns the empty list; no error reaches the caller.
\<close>

theorem getBookings_failure_empty:
  "(failed (select_bookings st (EqUserId userId)) \<longrightarrow> getBookingsByUser st userId = []) \<and>
   (failed (select_bookings st (EqMachineId machineId)) \<longrightarrow> getBookingsByMachine st machineId = [])"
proof -
  have u: "getBookingsByUser st userId = []" if "failed (select_bookings st (EqUserId userId))"
    using that by (cases "select_bookings st (EqUserId userId)") (simp_all add: getBookingsByUser_def)
  have m: "getBookingsByMachine st machineId = []"
    if "failed (select_bookings st (EqMachineId machineId))"
    using that
    by (cases "select_bookings st (EqMachineId machineId)") (simp_all add: getBookingsByMachine_def)
  from u m show ?thesis by blast
qed

theorem getBookings_failure_empty_witness:
  "failed (select_bookings store_down (EqUserId ''u1'')) \<and>
   getBookingsByUser store_down ''u1'' = [] \<and>
   failed (select_bookings store_down (EqMachineId ''C01M01'')) \<and>
   getBookingsByMachine store_down ''C01M01'' = []"
  using getBookings_failure_empty [of store_down "''u1''" "''C01M01''"]
  by (simp add: store_down_def)

text \<open>
  C10. When the read of a snapshot refresh comes back with an error or rejects, the
  bookings already held by the client stay as they are; the only field of the client
  state that the refresh leaves set is the loading flag, lowered again.
\<close>

theorem loadBookings_failure_keeps_snapshot:
  assumes "failed (select_bookings st AllBookings)"
  shows "loadBookings st c = c\<lparr>isLoading := False\<rparr>"
  using assms by (cases "select_bookings st AllBookings") (simp_all add: loadBookings_def)

theorem loadBookings_failure_keeps_snapshot_witness:
  "failed (select_bookings store_down AllBookings) \<and>
   loadBookings store_down client0 = client0\<lparr>isLoading := False\<rparr> \<and>
   bookings (loadBookings store_down client0) = [booking1]"
  using loadBookings_failure_keeps_snapshot [of store_down client0]
  by (simp add: store_down_def client0_def empty_client_def)

section \<open>Creating a booking\<close>

text \<open>
  C1, as the code has it. \<open>addBooking\<close> makes no overlap check: whether it succeeds, and
  with which row, is the same whatever bookings the client holds. When the store refuses
  the insert, the call fails with the very error the store gave and the client state
  (snapshot and user) is what it was; when the store accepts it, the call returns the
  row the store returned and puts it in front of the snapshot.
\<close>

theorem addBooking_ignores_existing_bookings:
  "fst (addBooking st d (c\<lparr>bookings := bs\<rparr>)) = fst (addBooking st d c) \<and>
   (\<forall>e. insert_booking st d = Failed e \<or> insert_booking st d = Thrown e \<longrightarrow>
      addBooking st d c = (Inl e, c)) \<and>
   (\<forall>row. insert_booking st d = Data row \<longrightarrow>
      addBooking st d c = (Inr row, c\<lparr>bookings := row # bookings c\<rparr>))"
  by (cases "insert_booking st d") (simp_all add: addBooking_def)

theorem addBooking_ignores_existing_bookings_witness:
  "insert_booking store_down request_10_12 = Failed (StoreError ''unreachable'') \<and>
   addBooking store_down request_10_12 client0 = (Inl (StoreError ''unreachable''), client0) \<and>
   insert_booking store_open request_10_12 = Data (stored_row request_10_12) \<and>
   addBooking store_open request_10_12 empty_client
     = (Inr (stored_row request_10_12), empty_client\<lparr>bookings := [stored_row request_10_12]\<rparr>)"
proof -
  have refused: "insert_booking store_down request_10_12 = Failed (StoreError ''unreachable'')"
    by (simp add: store_down_def)
  have accepted: "insert_booking store_open request_10_12 = Data (stored_row request_10_12)"
    by (simp add: store_open_def)
  from refused accepted
    addBooking_ignores_existing_bookings
      [where st = store_down and d = request_10_12 and c = client0 and bs = "[]"]
    addBooking_ignores_existing_bookings
      [where st = store_open and d = request_10_12 and c = empty_client and bs = "[]"]
  show ?thesis by (simp add: empty_client_def)
qed

text \<open>
  The sentence of the specification fails here: the request for \<open>C01M01\<close> over 10:00 to
  12:00 overlaps the pending booking over 9:00 to 11:00 on the same machine, the store
  accepts the insert, and the booking is created.
\<close>

theorem overlapping_booking_created:
  "spec_conflicts request_10_12 booking1 \<and>
   addBooking store_open request_10_12 client0
     = (Inr (stored_row request_10_12), client0\<lparr>bookings := [stored_row request_10_12, booking1]\<rparr>)"
  by (simp add: spec_conflicts_def spec_overlaps_def request_10_12_def booking1_def
      addBooking_def store_open_def client0_def empty_client_def)




section \<open>The ledger equation\<close>

lemma updateUser_keeps_ledger:
  assumes "respects_ledger (UpdateUser rendered ident updates)" and "ledger_holds c"
  shows "ledger_holds (snd (updateUser st rendered ident updates c))"
proof (cases "update_profile st ident updates")
  case (Data u)
  show ?thesis
  proof (cases rendered)
    case None
    with Data assms(2) show ?thesis by (simp add: updateUser_def)
  next
    case (Some usr)
    with Data assms show ?thesis
      by (simp add: updateUser_def ledger_holds_def)
  qed
next
  case (Failed e)
  with assms(2) show ?thesis by (simp add: updateUser_def)
next
  case (Thrown e)
  with assms(2) show ?thesis by (simp add: updateUser_def)
qed

lemma addBooking_user: "user (snd (addBooking st d c)) = user c"
  by (cases "insert_booking st d") (simp_all add: addBooking_def)

lemma updateBooking_user: "user (snd (updateBooking st ident updates c)) = user c"
  by (cases "update_booking st ident updates") (simp_all add: updateBooking_def)

lemma addUser_client: "snd (addUser st userData c) = c"
  by (simp add: addUser_def split: reply.splits)

lemma perform_keeps_ledger:
  assumes "respects_ledger call" and "ledger_holds c"
  shows "ledger_holds (perform st call c)"
proof (cases call)
  case (AddBooking d)
  with assms(2) show ?thesis by (simp add: ledger_holds_def addBooking_user)
next
  case (UpdateBooking ident updates)
  with assms(2) show ?thesis by (simp add: ledger_holds_def updateBooking_user)
next
  case (UpdateUser rendered ident updates)
  with assms show ?thesis by (simp only: perform.simps updateUser_keeps_ledger)
next
  case (AddUser userData)
  with assms(2) show ?thesis by (simp add: addUser_client)
qed

lemma run_keeps_ledger:
  assumes "ledger_holds c" and "list_all (\<lambda>call. respects_ledger (snd call)) calls"
  shows "ledger_holds (run calls c)"
  using assms
proof (induction calls arbitrary: c)
  case Nil
  then show ?case by simp
next
  case (Cons call calls)
  from Cons.prems have "ledger_holds (perform (fst call) (snd call) c)"
    by (simp add: perform_keeps_ledger)
  with Cons.IH Cons.prems show ?case by simp
qed

lemma updateUser_cases:
  "(\<forall>e. update_profile st ident updates = Failed e \<or> update_profile st ident updates = Thrown e \<longrightarrow>
      updateUser st rendered ident updates c = (Inl e, c)) \<and>
   (update_profile st ident updates = Data () \<longrightarrow>
      updateUser st None ident updates c = (Inr (), c) \<and>
      updateUser st (Some usr) ident updates c =
        (Inr (), if u_id usr = ident then c\<lparr>user := Some (spread_user usr updates)\<rparr> else c))"
  by (cases "update_profile st ident updates") (simp_all add: updateUser_def)

lemma spread_user_tokens:
  "tokens_given (spread_user usr updates)
     = (case set_tokens_given updates of None \<Rightarrow> tokens_given usr | Some g \<Rightarrow> g) \<and>
   tokens_consumed (spread_user usr updates)
     = (case set_tokens_consumed updates of None \<Rightarrow> tokens_consumed usr | Some k \<Rightarrow> k) \<and>
   tokens_remaining (spread_user usr updates)
     = (case set_tokens_remaining updates of None \<Rightarrow> tokens_remaining usr | Some r \<Rightarrow> r)"
  by (simp add: spread_user_def spread_def)

text \<open>
  C3, as the code has it, for the signed-in user the client holds. The booking
  operations never write that user and \<open>addUser\<close> writes no client state. An
  \<open>updateUser\<close> that the store refuses fails with the store's error and writes nothing;
  one that the store accepts, for the user its function value captured, replaces the
  client's user by the captured user with the fields of the update written over it:
  each of the three token fields is the value in the update when the update has one,
  and the captured value otherwise; none is recomputed. So when
  \<open>remaining = given - consumed\<close> holds at the start, it holds after every sequence of
  calls in which each update of a user leaves the captured user, with the update's
  fields written over it, with \<open>remaining = given - consumed\<close>, whatever the store
  answers.
\<close>

theorem ledger_kept_when_updates_balance:
  "(ledger_holds c \<and> list_all (\<lambda>call. respects_ledger (snd call)) calls \<longrightarrow>
      ledger_holds (run calls c)) \<and>
   user (snd (addBooking st d c)) = user c \<and>
   user (snd (updateBooking st ident bupdates c)) = user c \<and>
   snd (addUser st userData c) = c \<and>
   (\<forall>e. update_profile st ident updates = Failed e \<or> update_profile st ident updates = Thrown e \<longrightarrow>
      updateUser st rendered ident updates c = (Inl e, c)) \<and>
   (update_profile st ident updates = Data () \<longrightarrow>
      updateUser st None ident updates c = (Inr (), c) \<and>
      updateUser st (Some usr) ident updates c =
        (Inr (), if u_id usr = ident then c\<lparr>user := Some (spread_user usr updates)\<rparr> else c)) \<and>
   tokens_given (spread_user usr updates)
     = (case set_tokens_given updates of None \<Rightarrow> tokens_given usr | Some g \<Rightarrow> g) \<and>
   tokens_consumed (spread_user usr updates)
     = (case set_tokens_consumed updates of None \<Rightarrow> tokens_consumed usr | Some k \<Rightarrow> k) \<and>
   tokens_remaining (spread_user usr updates)
     = (case set_tokens_remaining updates of None \<Rightarrow> tokens_remaining usr | Some r \<Rightarrow> r)"
  using run_keeps_ledger [of c calls] addBooking_user [of st d c]
    updateBooking_user [of st ident bupdates c] addUser_client [of st userData c]
    updateUser_cases [of st ident updates rendered c usr] spread_user_tokens [of usr updates]
  by blast

lemma session_after:
  "run session (client_with_user (user_with_tokens 10 0 10))
   = (client_with_user (user_with_tokens 20 0 20))
       \<lparr>bookings := [(stored_row request_10_12)\<lparr>status := Approved\<rparr>]\<rparr>"
  by (simp add: session_def addBooking_def updateBooking_def updateUser_def addUser_def
      store_open_def store_down_def client_with_user_def empty_client_def user_with_tokens_def
      grant_of_10_def no_user_updates_def approve_def no_booking_updates_def
      spread_user_def spread_booking_def spread_def stored_row_def request_10_12_def)

theorem ledger_kept_when_updates_balance_witness:
  "ledger_holds (client_with_user (user_with_tokens 10 0 10)) \<and>
   list_all (\<lambda>call. respects_ledger (snd call)) session \<and>
   ledger_holds (run session (client_with_user (user_with_tokens 10 0 10))) \<and>
   user (run session (client_with_user (user_with_tokens 10 0 10)))
     = Some (user_with_tokens 20 0 20) \<and>
   update_profile store_down ''u1'' grant_of_10 = Thrown (StoreError ''unreachable'') \<and>
   updateUser store_down (Some (user_with_tokens 10 0 10)) ''u1'' grant_of_10
       (client_with_user (user_with_tokens 10 0 10))
     = (Inl (StoreError ''unreachable''), client_with_user (user_with_tokens 10 0 10)) \<and>
   update_profile store_open ''u1'' grant_of_10 = Data () \<and>
   updateUser store_open (Some (user_with_tokens 10 0 10)) ''u1'' grant_of_10
       (client_with_user (user_with_tokens 10 0 10))
     = (Inr (), client_with_user (user_with_tokens 20 0 20))"
proof -
  let ?u = "user_with_tokens 10 0 10"
  have start: "ledger_holds (client_with_user ?u)"
    by (simp add: ledger_holds_def ledger_balanced_def client_with_user_def user_with_tokens_def)
  have calls: "list_all (\<lambda>call. respects_ledger (snd call)) session"
    by (simp add: session_def ledger_balanced_def spread_user_def spread_def grant_of_10_def
        no_user_updates_def user_with_tokens_def)
  have final: "user (run session (client_with_user ?u)) = Some (user_with_tokens 20 0 20)"
    unfolding session_after by (simp add: client_with_user_def)
  have refused: "update_profile store_down ''u1'' grant_of_10 = Thrown (StoreError ''unreachable'')"
    by (simp add: store_down_def)
  have accepted: "update_profile store_open ''u1'' grant_of_10 = Data ()"
    by (simp add: store_open_def)
  have id: "u_id ?u = ''u1''" by (simp add: user_with_tokens_def)
  have spread: "spread_user ?u grant_of_10 = user_with_tokens 20 0 20"
    by (simp add: spread_user_def spread_def grant_of_10_def no_user_updates_def
        user_with_tokens_def)
  have after: "(client_with_user ?u)\<lparr>user := Some (user_with_tokens 20 0 20)\<rparr>
      = client_with_user (user_with_tokens 20 0 20)"
    by (simp add: client_with_user_def)
  from ledger_kept_when_updates_balance
      [where c = "client_with_user ?u" and calls = session and st = store_down
         and ident = "''u1''" and updates = grant_of_10 and rendered = "Some ?u" and usr = ?u]
    start calls refused
  have "ledger_holds (run session (client_with_user ?u))"
    and "updateUser store_down (Some ?u) ''u1'' grant_of_10 (client_with_user ?u)
         = (Inl (StoreError ''unreachable''), client_with_user ?u)"
    by blast+
  moreover from ledger_kept_when_updates_balance
      [where c = "client_with_user ?u" and calls = session and st = store_open
         and ident = "''u1''" and updates = grant_of_10 and rendered = "Some ?u" and usr = ?u]
    accepted id spread after
  have "updateUser store_open (Some ?u) ''u1'' grant_of_10 (client_with_user ?u)
        = (Inr (), client_with_user (user_with_tokens 20 0 20))"
    by simp
  ultimately show ?thesis
    using start calls final refused accepted by blast
qed

text \<open>
  The sentence of the specification fails here: a grant that sets \<open>tokens_given\<close> alone
  is a legal argument of \<open>updateUser\<close>; the store accepts it and the client then holds a
  user with \<open>given = 20\<close>, \<open>consumed = 0\<close> and \<open>remaining = 10\<close>.
\<close>

theorem grant_breaks_ledger:
  "ledger_holds (client_with_user (user_with_tokens 10 0 10)) \<and>
   updateUser store_open (Some (user_with_tokens 10 0 10)) ''u1'' grant_to_20
       (client_with_user (user_with_tokens 10 0 10))
     = (Inr (), client_with_user (user_with_tokens 20 0 10)) \<and>
   \<not> ledger_holds (client_with_user (user_with_tokens 20 0 10))"
  by (simp add: ledger_holds_def ledger_balanced_def updateUser_def store_open_def
      client_with_user_def empty_client_def user_with_tokens_def grant_to_20_def
      no_user_updates_def spread_user_def spread_def)

section \<open>Updating a booking\<close>

text \<open>
  C4, as the code has it. \<open>updateBooking\<close> checks no transition. When the store accepts
  the update, every booking of the snapshot with the given id gets the fields of the
  update, so a status in the update becomes the status of the booking whatever its
  status was, a terminal one included; the other bookings are as they were. When the
  store refuses, the call fails with the very error the store gave and the client state
  is what it was.
\<close>

theorem updateBooking_checks_no_transition:
  "(\<forall>e. update_booking st ident updates = Failed e \<or> update_booking st ident updates = Thrown e \<longrightarrow>
      updateBooking st ident updates c = (Inl e, c)) \<and>
   (update_booking st ident updates = Data () \<longrightarrow>
      updateBooking st ident updates c =
        (Inr (), c\<lparr>bookings := map (\<lambda>b. if b_id b = ident then spread_booking b updates else b)
                                 (bookings c)\<rparr>)) \<and>
   (set_status updates = Some s \<longrightarrow> status (spread_booking b updates) = s) \<and>
   (set_status updates = None \<longrightarrow> status (spread_booking b updates) = status b)"
  by (cases "update_booking st ident updates")
    (simp_all add: updateBooking_def spread_booking_def spread_def)

theorem updateBooking_checks_no_transition_witness:
  "update_booking store_down ''b1'' approve = Failed (StoreError ''unreachable'') \<and>
   updateBooking store_down ''b1'' approve client0 = (Inl (StoreError ''unreachable''), client0) \<and>
   update_booking store_open ''b1'' approve = Data () \<and>
   updateBooking store_open ''b1'' approve client0
     = (Inr (), client0\<lparr>bookings := [spread_booking booking1 approve]\<rparr>) \<and>
   set_status approve = Some Approved \<and>
   status (spread_booking booking1 approve) = Approved \<and>
   set_status no_booking_updates = None \<and>
   status (spread_booking booking1 no_booking_updates) = Pending"
proof -
  have refused: "update_booking store_down ''b1'' approve = Failed (StoreError ''unreachable'')"
    by (simp add: store_down_def)
  have accepted: "update_booking store_open ''b1'' approve = Data ()"
    by (simp add: store_open_def)
  have given: "set_status approve = Some Approved"
    by (simp add: approve_def no_booking_updates_def)
  have absent: "set_status no_booking_updates = None"
    by (simp add: no_booking_updates_def)
  have snapshot: "bookings client0 = [booking1]" "b_id booking1 = ''b1''" "status booking1 = Pending"
    by (simp_all add: client0_def empty_client_def booking1_def)
  from refused accepted given absent snapshot
    updateBooking_checks_no_transition
      [where st = store_down and ident = "''b1''" and updates = approve and c = client0
         and s = Approved and b = booking1]
    updateBooking_checks_no_transition
      [where st = store_open and ident = "''b1''" and updates = approve and c = client0
         and s = Approved and b = booking1]
    updateBooking_checks_no_transition
      [where st = store_open and ident = "''b1''" and updates = no_booking_updates and c = client0
         and s = Approved and b = booking1]
  show ?thesis by simp
qed

text \<open>
  The sentence of the specification fails here: a rejected booking is updated with status
  approved, a transition the state machine does not have; the store accepts, the call
  succeeds and the booking is approved.
\<close>

theorem rejected_booking_approved:
  "spec_terminal (status booking_rejected) \<and>
   \<not> spec_transition (status booking_rejected) Approved \<and>
   updateBooking store_open ''b1'' approve (empty_client\<lparr>bookings := [booking_rejected]\<rparr>)
     = (Inr (), empty_client\<lparr>bookings := [booking_rejected\<lparr>status := Approved\<rparr>]\<rparr>)"
  by (simp add: spec_terminal_def booking_rejected_def booking1_def updateBooking_def
      store_open_def approve_def no_booking_updates_def empty_client_def spread_booking_def
      spread_def)

section \<open>Deleting a machine type\<close>

text \<open>
  C7, as the code has it. \<open>deleteMachineType\<close> does not look at the machines: its outcome
  is the same whatever machines the client holds, and it leaves them as they are. When
  the store accepts the delete the type is removed from the snapshot, referenced or not;
  when the store refuses, the call fails with the very error the store gave and the
  client state is what it was.
\<close>

theorem deleteMachineType_checks_no_reference:
  "fst (deleteMachineType st ident (c\<lparr>machines := ms\<rparr>)) = fst (deleteMachineType st ident c) \<and>
   machines (snd (deleteMachineType st ident c)) = machines c \<and>
   (\<forall>e. delete_machine_type st ident = Failed e \<or> delete_machine_type st ident = Thrown e \<longrightarrow>
      deleteMachineType st ident c = (Inl e, c)) \<and>
   (delete_machine_type st ident = Data () \<longrightarrow>
      deleteMachineType st ident c =
        (Inr (), c\<lparr>machineTypes := filter (\<lambda>t. t_id t \<noteq> ident) (machineTypes c)\<rparr>))"
  by (cases "delete_machine_type st ident") (simp_all add: deleteMachineType_def)

theorem deleteMachineType_checks_no_reference_witness:
  "delete_machine_type store_down ''C02'' = Thrown (StoreError ''unreachable'') \<and>
   deleteMachineType store_down ''C02'' two_categories
     = (Inl (StoreError ''unreachable''), two_categories) \<and>
   delete_machine_type store_open ''C02'' = Data () \<and>
   deleteMachineType store_open ''C02'' two_categories
     = (Inr (), two_categories\<lparr>machineTypes := [\<lparr>t_id = ''C01'', t_name = ''3D printer''\<rparr>]\<rparr>)"
proof -
  have refused: "delete_machine_type store_down ''C02'' = Thrown (StoreError ''unreachable'')"
    by (simp add: store_down_def)
  have accepted: "delete_machine_type store_open ''C02'' = Data ()"
    by (simp add: store_open_def)
  have types: "machineTypes two_categories
      = [\<lparr>t_id = ''C01'', t_name = ''3D printer''\<rparr>, \<lparr>t_id = ''C02'', t_name = ''laser cutter''\<rparr>]"
    by (simp add: two_categories_def empty_client_def)
  from refused accepted types
    deleteMachineType_checks_no_reference
      [where st = store_down and ident = "''C02''" and c = two_categories and ms = "[]"]
    deleteMachineType_checks_no_reference
      [where st = store_open and ident = "''C02''" and c = two_categories and ms = "[]"]
  show ?thesis by simp
qed

text \<open>
  The sentence of the specification fails here: the type \<open>C01\<close> has the machine
  \<open>C01M01\<close>, the store accepts the delete, the call succeeds and the type is gone from
  the snapshot while the machine is still there.
\<close>

theorem referenced_type_deleted:
  "''C01'' \<in> machine_type_id ` set (machines category_in_use) \<and>
   deleteMachineType store_open ''C01'' category_in_use
     = (Inr (), empty_client\<lparr>machines := [machine_numbered ''C01'' 1]\<rparr>)"
  by (simp add: category_in_use_def deleteMachineType_def store_open_def empty_client_def
      machine_numbered_def)

section \<open>Change Feed events\<close>

lemma loadData_all_read:
  assumes "select_machine_types st = Data ts" and "select_machines st = Data ms"
    and "select_audit_logs st = Data ls"
  shows "loadData st c =
           c\<lparr>machines := ms, machineTypes := ts, auditLogs := ls, isLoading_machines := False\<rparr>"
  using assms by (simp add: loadData_def loadData_machines_def loadData_audit_def)

lemma loadBookings_read:
  assumes "select_bookings st AllBookings = Data rows"
  shows "loadBookings st c = c\<lparr>bookings := rows, isLoading := False\<rparr>"
  using assms by (simp add: loadBookings_def)

text \<open>
  C8. Each of the four subscription callbacks does what the refresh of its provider does,
  whatever the payload of the event is: \<open>loadBookings\<close> for the bookings,
  \<open>loadData\<close> for machines, machine types and audit logs. The refresh reads the Data
  Store again: when the reads succeed, the bookings (respectively the machine types,
  the machines and the audit logs) of the client become the rows read, whole, the
  loading flag is lowered, and nothing else of the client state changes.
\<close>

theorem feed_event_only_refreshes:
  "bookings_changes st payload c = loadBookings st c \<and>
   machines_changes st payload_m c = loadData st c \<and>
   machine_types_changes st payload_t c = loadData st c \<and>
   audit_logs_changes st payload_a c = loadData st c \<and>
   (\<forall>rows. select_bookings st AllBookings = Data rows \<longrightarrow>
      bookings_changes st payload c = c\<lparr>bookings := rows, isLoading := False\<rparr>) \<and>
   (\<forall>ts ms ls. select_machine_types st = Data ts \<and> select_machines st = Data ms \<and>
        select_audit_logs st = Data ls \<longrightarrow>
      machines_changes st payload_m c =
        c\<lparr>machines := ms, machineTypes := ts, auditLogs := ls, isLoading_machines := False\<rparr> \<and>
      machine_types_changes st payload_t c =
        c\<lparr>machines := ms, machineTypes := ts, auditLogs := ls, isLoading_machines := False\<rparr> \<and>
      audit_logs_changes st payload_a c =
        c\<lparr>machines := ms, machineTypes := ts, auditLogs := ls, isLoading_machines := False\<rparr>)"
  using loadData_all_read [of st _ _ _ c] loadBookings_read [of st _ c]
  by (simp add: bookings_changes_def machines_changes_def machine_types_changes_def
      audit_logs_changes_def)

theorem feed_event_only_refreshes_witness:
  "select_bookings store_full AllBookings = Data [booking_rejected] \<and>
   bookings_changes store_full insert_event client0
     = client0\<lparr>bookings := [booking_rejected], isLoading := False\<rparr> \<and>
   select_machine_types store_full = Data [\<lparr>t_id = ''C01'', t_name = ''3D printer''\<rparr>] \<and>
   select_machines store_full = Data [machine_named ''C01M01'' ''C01''] \<and>
   select_audit_logs store_full = Data [\<lparr>a_id = ''a1'', a_action = ''create'', a_timestamp = 3\<rparr>] \<and>
   machines_changes store_full bare_event two_categories
     = two_categories\<lparr>machines := [machine_named ''C01M01'' ''C01''],
         machineTypes := [\<lparr>t_id = ''C01'', t_name = ''3D printer''\<rparr>],
         auditLogs := [\<lparr>a_id = ''a1'', a_action = ''create'', a_timestamp = 3\<rparr>],
         isLoading_machines := False\<rparr>"
proof -
  have reads: "select_bookings store_full AllBookings = Data [booking_rejected]"
    "select_machine_types store_full = Data [\<lparr>t_id = ''C01'', t_name = ''3D printer''\<rparr>]"
    "select_machines store_full = Data [machine_named ''C01M01'' ''C01'']"
    "select_audit_logs store_full = Data [\<lparr>a_id = ''a1'', a_action = ''create'', a_timestamp = 3\<rparr>]"
    by (simp_all add: store_full_def store_open_def)
  from reads feed_event_only_refreshes
      [where st = store_full and payload = insert_event and c = client0
         and payload_m = bare_event and payload_t = bare_event and payload_a = bare_event]
  have "bookings_changes store_full insert_event client0
     = client0\<lparr>bookings := [booking_rejected], isLoading := False\<rparr>"
    by blast
  moreover from reads feed_event_only_refreshes
      [where st = store_full and payload = insert_event and c = two_categories
         and payload_m = bare_event and payload_t = bare_event and payload_a = bare_event]
  have "machines_changes store_full bare_event two_categories
     = two_categories\<lparr>machines := [machine_named ''C01M01'' ''C01''],
         machineTypes := [\<lparr>t_id = ''C01'', t_name = ''3D printer''\<rparr>],
         auditLogs := [\<lparr>a_id = ''a1'', a_action = ''create'', a_timestamp = 3\<rparr>],
         isLoading_machines := False\<rparr>"
    by blast
  ultimately show ?thesis using reads by blast
qed


section \<open>Identifier allocation\<close>

lemma decimal_digit_cases:
  "is_decimal_digit ch \<Longrightarrow>
   ch = CHR ''0'' \<or> ch = CHR ''1'' \<or> ch = CHR ''2'' \<or> ch = CHR ''3'' \<or> ch = CHR ''4'' \<or>
   ch = CHR ''5'' \<or> ch = CHR ''6'' \<or> ch = CHR ''7'' \<or> ch = CHR ''8'' \<or> ch = CHR ''9''"
  by (simp add: is_decimal_digit_def)

lemma decimal_digit_radix: "is_decimal_digit ch \<Longrightarrow> radix_digit 10 ch"
  by (drule decimal_digit_cases) (elim disjE; simp add: radix_digit_def digit_value_def digit_table_def)

lemma decimal_digit_not_space: "is_decimal_digit ch \<Longrightarrow> \<not> is_white_space ch"
  by (drule decimal_digit_cases) (elim disjE; simp add: is_white_space_def)

lemma decimal_digit_not_sign:
  "is_decimal_digit ch \<Longrightarrow> ch \<noteq> CHR ''+'' \<and> ch \<noteq> CHR ''-'' \<and> ch \<noteq> CHR ''x'' \<and> ch \<noteq> CHR ''X''"
  by (drule decimal_digit_cases) (elim disjE; simp)

lemma parseInt_digits:
  assumes "ds \<noteq> []" and "list_all is_decimal_digit ds"
  shows "parseInt ds = Some (int (digits_value 10 ds))"
proof -
  from assms obtain d rest where ds: "ds = d # rest" and d: "is_decimal_digit d"
    and rest: "list_all is_decimal_digit rest"
    by (cases ds) auto
  have nospace: "dropWhile is_white_space ds = ds"
    using d by (simp add: ds decimal_digit_not_space)
  have nosign: "take 1 ds \<noteq> ''+''" "take 1 ds \<noteq> ''-''"
    using decimal_digit_not_sign [OF d] by (simp_all add: ds)
  have nohex: "take 2 ds \<noteq> ''0x''" "take 2 ds \<noteq> ''0X''"
  proof -
    show "take 2 ds \<noteq> ''0x''"
    proof (cases rest)
      case Nil then show ?thesis by (simp add: ds)
    next
      case (Cons e rest')
      with rest have "is_decimal_digit e" by simp
      from decimal_digit_not_sign [OF this] show ?thesis by (simp add: ds Cons)
    qed
    show "take 2 ds \<noteq> ''0X''"
    proof (cases rest)
      case Nil then show ?thesis by (simp add: ds)
    next
      case (Cons e rest')
      with rest have "is_decimal_digit e" by simp
      from decimal_digit_not_sign [OF this] show ?thesis by (simp add: ds Cons)
    qed
  qed
  have all: "takeWhile (radix_digit 10) ds = ds"
    using assms(2) by (auto simp: takeWhile_eq_all_conv list_all_iff decimal_digit_radix)
  show ?thesis
    using assms(1) nosign nohex by (simp add: parseInt_def nospace all)
qed

lemma suffix_parse:
  assumes "length cat = 3" and "spec_numeric_suffix cat ident = Some n"
  shows "parseInt (drop 4 ident) = Some n"
  using assms parseInt_digits [of "drop 4 ident"]
  by (simp add: spec_numeric_suffix_def Let_def split: if_splits)

lemma keep_larger_Max:
  fixes a :: int
  shows "foldl (\<lambda>mx m. case f m of None \<Rightarrow> mx | Some k \<Rightarrow> if k > mx then k else mx) a xs
         = Max (set (a # List.map_filter f xs))"
proof (induction xs arbitrary: a)
  case Nil
  then show ?case by (simp add: map_filter_simps)
next
  case (Cons x xs)
  show ?case
  proof (cases "f x")
    case None
    then show ?thesis using Cons.IH [of a] by (simp add: map_filter_simps)
  next
    case (Some k)
    have "(if k > a then k else a) = max a k" by simp
    then show ?thesis
      using Cons.IH [of "max a k"] Some
      by (cases "List.map_filter f xs = []") (simp_all add: map_filter_simps max.assoc)
  qed
qed

lemma two_digits:
  assumes "0 \<le> n" and "n \<le> 99"
  shows "padStart 2 (CHR ''0'') (String_of n) = spec_two_digits n"
proof (cases "nat n < 10")
  case True
  then have "decimal (nat n) = [digit_char (nat n)]" by (simp add: decimal.simps)
  with True assms show ?thesis
    by (simp add: padStart_def String_of_def spec_two_digits_def digit_char_def)
next
  case False
  with assms have "nat n div 10 < 10" by simp
  then have "decimal (nat n div 10) = [digit_char (nat n div 10)]" by (simp add: decimal.simps)
  with False have "decimal (nat n) = [digit_char (nat n div 10), digit_char (nat n mod 10)]"
    by (subst decimal.simps) simp
  with assms show ?thesis
    by (simp add: padStart_def String_of_def spec_two_digits_def)
qed

lemma same_numbers:
  assumes len: "length cat = 3"
    and ids: "\<forall>m\<in>set ms. machine_type_id m = cat \<longrightarrow>
                spec_numeric_suffix cat (m_id m) \<noteq> None \<or> non_numeric (m_id m)"
  shows "List.map_filter (\<lambda>m. parseInt (drop 4 (m_id m))) (filter (\<lambda>m. machine_type_id m = cat) ms)
         = List.map_filter (\<lambda>m. spec_numeric_suffix cat (m_id m)) (filter (\<lambda>m. machine_type_id m = cat) ms)"
proof -
  have "parseInt (drop 4 (m_id m)) = spec_numeric_suffix cat (m_id m)"
    if "m \<in> set ms" and "machine_type_id m = cat" for m
  proof (cases "spec_numeric_suffix cat (m_id m)")
    case None
    with ids that have "non_numeric (m_id m)" by blast
    with None show ?thesis by (simp add: non_numeric_def)
  next
    case (Some n)
    with suffix_parse [OF len Some] show ?thesis by simp
  qed
  then show ?thesis
    by (induction ms) (auto simp: map_filter_simps split: option.splits)
qed

lemma generateMachineId_Max:
  assumes len: "length cat = 3"
    and ids: "\<forall>m\<in>set (machines c). machine_type_id m = cat \<longrightarrow>
                spec_numeric_suffix cat (m_id m) \<noteq> None \<or> non_numeric (m_id m)"
  shows "generateMachineId c cat =
         cat @ ''M'' @ padStart 2 (CHR ''0'')
           (String_of (Max (set (0 # List.map_filter (\<lambda>m. spec_numeric_suffix cat (m_id m))
              (filter (\<lambda>m. machine_type_id m = cat) (machines c)))) + 1))"
  unfolding generateMachineId_def Let_def keep_larger_Max same_numbers [OF len ids] ..


lemma set_map_filter_conv:
  "set (List.map_filter f xs) = {y. \<exists>x\<in>set xs. f x = Some y}"
  by (induction xs) (auto simp: map_filter_simps split: option.splits)

lemma suffixes_bounded:
  assumes len: "length cat = 3"
    and ids: "\<forall>m\<in>set ms. machine_type_id m = cat \<longrightarrow>
                numbered_below k cat (m_id m) \<or> non_numeric (m_id m)"
    and x: "x \<in> set (List.map_filter (\<lambda>m. spec_numeric_suffix cat (m_id m))
                  (filter (\<lambda>m. machine_type_id m = cat) ms))"
  shows "0 \<le> x \<and> x < k"
proof -
  from x obtain m where m: "m \<in> set ms" "machine_type_id m = cat"
    and sx: "spec_numeric_suffix cat (m_id m) = Some x"
    by (auto simp: set_map_filter_conv)
  from suffix_parse [OF len sx] have "\<not> non_numeric (m_id m)" by (simp add: non_numeric_def)
  with ids m have "numbered_below k cat (m_id m)" by blast
  with sx have "x < k" by (simp add: numbered_below_def)
  moreover from sx have "0 \<le> x"
    by (auto simp: spec_numeric_suffix_def Let_def split: if_splits)
  ultimately show ?thesis by simp
qed

lemma numbered_not_malformed:
  "numbered_below k cat ident \<Longrightarrow> spec_numeric_suffix cat ident \<noteq> None"
  by (simp add: numbered_below_def split: option.splits)

text \<open>
  C5, as the code has it. For a category identifier of three characters, when every
  machine of the category has an identifier that is the category's identifier, \<open>M\<close> and
  a decimal number below 99, or has no number after its fourth character, the identifier
  \<open>generateMachineId\<close> returns is the one the specification's algorithm gives: the
  maximum numeric suffix of the category's machines (those without a number ignored),
  plus one, in two digits. With no machine in \<open>C01\<close> it is \<open>C01M01\<close>, and with that
  one added it is \<open>C01M02\<close>.
\<close>

theorem generateMachineId_refines_spec:
  assumes len: "length cat = 3"
    and ids: "\<forall>m\<in>set (machines c). machine_type_id m = cat \<longrightarrow>
                numbered_below 99 cat (m_id m) \<or> non_numeric (m_id m)"
  shows "spec_nextMachineId cat (machines c) = Inr (generateMachineId c cat) \<and>
         generateMachineId (client_with_machines []) ''C01'' = ''C01M01'' \<and>
         generateMachineId (client_with_machines [machine_named ''C01M01'' ''C01'']) ''C01''
           = ''C01M02''"
proof -
  let ?S = "List.map_filter (\<lambda>m. spec_numeric_suffix cat (m_id m))
              (filter (\<lambda>m. machine_type_id m = cat) (machines c))"
  have ids': "\<forall>m\<in>set (machines c). machine_type_id m = cat \<longrightarrow>
                spec_numeric_suffix cat (m_id m) \<noteq> None \<or> non_numeric (m_id m)"
    using ids numbered_not_malformed by blast
  have "Max (set (0 # ?S)) \<in> set (0 # ?S)" by (rule Max_in) simp_all
  then have "0 \<le> Max (set (0 # ?S)) \<and> Max (set (0 # ?S)) < 99"
    using suffixes_bounded [OF len ids] by auto
  then have range: "0 \<le> Max (set (0 # ?S)) + 1" "Max (set (0 # ?S)) + 1 \<le> 99"
    by linarith+
  have pad: "padStart 2 (CHR ''0'') (String_of (Max (set (0 # ?S)) + 1))
             = spec_two_digits (Max (set (0 # ?S)) + 1)"
    by (rule two_digits [OF range])
  have fits: "\<not> 99 < Max (set (0 # ?S)) + 1"
    using range by linarith
  have "spec_nextMachineId cat (machines c) = Inr (generateMachineId c cat)"
    unfolding generateMachineId_Max [OF len ids'] spec_nextMachineId_def Let_def pad
    using fits by (simp only: if_False)
  moreover have "generateMachineId (client_with_machines []) ''C01'' = ''C01M01''"
    by code_simp
  moreover have
    "generateMachineId (client_with_machines [machine_named ''C01M01'' ''C01'']) ''C01'' = ''C01M02''"
    by code_simp
  ultimately show ?thesis by simp
qed

lemma three_machines_next: "generateMachineId three_machines ''C01'' = ''C01M02''"
  by code_simp

theorem generateMachineId_refines_spec_witness:
  "length ''C01'' = 3 \<and>
   list_all (\<lambda>m. machine_type_id m = ''C01'' \<longrightarrow>
      numbered_below 99 ''C01'' (m_id m) \<or> non_numeric (m_id m)) (machines three_machines) \<and>
   spec_nextMachineId ''C01'' (machines three_machines) = Inr ''C01M02'' \<and>
   generateMachineId three_machines ''C01'' = ''C01M02''"
proof -
  have len: "length ''C01'' = 3" by simp
  have ids: "\<forall>m\<in>set (machines three_machines). machine_type_id m = ''C01'' \<longrightarrow>
               numbered_below 99 ''C01'' (m_id m) \<or> non_numeric (m_id m)"
    by code_simp
  from generateMachineId_refines_spec [OF len ids] len ids show ?thesis
    by (simp add: three_machines_next list_all_iff)
qed

text \<open>
  The sentence of the specification fails here: \<open>C01M12abc\<close> is not an identifier with a numeric suffix,
  and the specification's algorithm ignores it; \<^verbatim>\<open>parseInt\<close> reads the 12 in front of
  \<open>abc\<close>, and the next identifier is \<open>C01M13\<close>.
\<close>

theorem malformed_identifier_counted:
  "spec_nextMachineId ''C01'' [machine_named ''C01M12abc'' ''C01''] = Inr ''C01M01'' \<and>
   generateMachineId (client_with_machines [machine_named ''C01M12abc'' ''C01'']) ''C01''
     = ''C01M13''"
  by code_simp

text \<open>
  The fourth character is where the number is looked for, whatever the length of the
  category's identifier: for \<open>C100\<close>, the identifier that \<open>generateMachineTypeId\<close> gives
  after \<open>C99\<close>, the machine \<open>C100M01\<close> counts for nothing and its identifier is given
  again.
\<close>

lemma longer_category_identifier:
  "generateMachineTypeId (empty_client\<lparr>machineTypes := [\<lparr>t_id = ''C99'', t_name = ''lathe''\<rparr>]\<rparr>)
     = ''C100'' \<and>
   generateMachineId (client_with_machines [machine_named ''C100M01'' ''C100'']) ''C100''
     = ''C100M01''"
  by code_simp

text \<open>
  C6, as the code has it. For a category identifier of three characters whose machines
  have numeric suffixes up to 99, with 99 among them, \<open>generateMachineId\<close> returns the
  category's identifier followed by \<open>M100\<close>: the suffix gets a third digit, and the
  function has no error to return.
\<close>

theorem generateMachineId_after_99:
  assumes len: "length cat = 3"
    and ids: "\<forall>m\<in>set (machines c). machine_type_id m = cat \<longrightarrow>
                numbered_below 100 cat (m_id m) \<or> non_numeric (m_id m)"
    and last: "\<exists>m\<in>set (machines c). machine_type_id m = cat \<and>
                spec_numeric_suffix cat (m_id m) = Some 99"
  shows "generateMachineId c cat = cat @ ''M100''"
proof -
  let ?S = "List.map_filter (\<lambda>m. spec_numeric_suffix cat (m_id m))
              (filter (\<lambda>m. machine_type_id m = cat) (machines c))"
  have ids': "\<forall>m\<in>set (machines c). machine_type_id m = cat \<longrightarrow>
                spec_numeric_suffix cat (m_id m) \<noteq> None \<or> non_numeric (m_id m)"
    using ids numbered_not_malformed by blast
  from last have "99 \<in> set (0 # ?S)" by (auto simp: set_map_filter_conv)
  moreover have "y \<le> 99" if "y \<in> set (0 # ?S)" for y
    using that suffixes_bounded [OF len ids, of y] by auto
  ultimately have "Max (set (0 # ?S)) = 99" by (intro Max_eqI) simp_all
  moreover have "padStart 2 (CHR ''0'') (String_of 100) = ''100''" by code_simp
  ultimately show ?thesis
    unfolding generateMachineId_Max [OF len ids'] by simp
qed

theorem generateMachineId_after_99_witness:
  "length ''C01'' = 3 \<and>
   list_all (\<lambda>m. machine_type_id m = ''C01'' \<longrightarrow>
      numbered_below 100 ''C01'' (m_id m) \<or> non_numeric (m_id m)) (machines last_machine) \<and>
   (\<exists>m\<in>set (machines last_machine). machine_type_id m = ''C01'' \<and>
      spec_numeric_suffix ''C01'' (m_id m) = Some 99) \<and>
   generateMachineId last_machine ''C01'' = ''C01M100''"
proof -
  have len: "length ''C01'' = 3" by simp
  have ids: "\<forall>m\<in>set (machines last_machine). machine_type_id m = ''C01'' \<longrightarrow>
               numbered_below 100 ''C01'' (m_id m) \<or> non_numeric (m_id m)"
    by code_simp
  have last: "\<exists>m\<in>set (machines last_machine). machine_type_id m = ''C01'' \<and>
                spec_numeric_suffix ''C01'' (m_id m) = Some 99"
    by code_simp
  from generateMachineId_after_99 [OF len ids last] len ids last show ?thesis
    by (simp add: list_all_iff)
qed

text \<open>
  The sentence of the specification fails here: with the 99 machines \<open>C01M01\<close> to \<open>C01M99\<close> the
  specification's algorithm gives the error, and \<open>generateMachineId\<close> returns
  \<open>C01M100\<close>.
\<close>

theorem full_category_gets_third_digit:
  "length (machines full_category) = 99 \<and>
   spec_nextMachineId ''C01'' (machines full_category) = Inl IdentifierSpaceExhausted \<and>
   generateMachineId full_category ''C01'' = ''C01M100''"
  by code_simp

end
